theory Spec2Isabelle
  imports Complex_Main
begin

section \<open>Python values read and produced by \<^verbatim>\<open>trading_strat.py\<close>\<close>

text \<open>
  The script works on Python floats (cash, prices, indicator lines, trade profit) and on
  Python ints (share counts, trade counters). Finite floats are idealised as \<^typ>\<open>real\<close>:
  rounding of the binary representation is not part of this development. The one float
  that is not a number and that the script can meet is NaN, which the engine stores in an
  indicator line until the indicator has seen its minimum period of bars; it is kept as a
  constructor of its own, because every ordering comparison of Python with NaN is False.
\<close>

datatype py_error = ZeroDivisionError

datatype pyfloat = NaN | Num real

text \<open>\<^verbatim>\<open>a < b\<close> and \<^verbatim>\<open>a > b\<close> on floats: False as soon as one side is NaN.\<close>

fun py_lt :: "pyfloat \<Rightarrow> pyfloat \<Rightarrow> bool" where
  "py_lt (Num a) (Num b) = (a < b)"
| "py_lt _ _ = False"

fun py_gt :: "pyfloat \<Rightarrow> pyfloat \<Rightarrow> bool" where
  "py_gt (Num a) (Num b) = (a > b)"
| "py_gt _ _ = False"

text \<open>\<^verbatim>\<open>a / b\<close> on floats raises \<^verbatim>\<open>ZeroDivisionError\<close> when \<^verbatim>\<open>b\<close> is zero.\<close>

definition py_truediv :: "real \<Rightarrow> real \<Rightarrow> py_error + real" where
  "py_truediv a b = (if b = 0 then Inl ZeroDivisionError else Inr (a / b))"

text \<open>\<^verbatim>\<open>int(x)\<close> on a float truncates towards zero.\<close>

definition py_int :: "real \<Rightarrow> int" where
  "py_int x = (if 0 \<le> x then \<lfloor>x\<rfloor> else \<lceil>x\<rceil>)"

text \<open>Values stored in the dictionaries the analyzers return.\<close>

datatype pyval = PyInt int | PyFloat real | PyStr string

fun py_num :: "pyval \<Rightarrow> real" where
  "py_num (PyInt i) = real_of_int i"
| "py_num (PyFloat x) = x"
| "py_num (PyStr s) = 0"

type_synonym pydict = "string \<rightharpoonup> pyval"

text \<open>\<^verbatim>\<open>d.get(key, default)\<close>\<close>

definition dict_get :: "pydict \<Rightarrow> string \<Rightarrow> pyval \<Rightarrow> pyval" where
  "dict_get d k dflt = (case d k of None \<Rightarrow> dflt | Some v \<Rightarrow> v)"


section \<open>\<^verbatim>\<open>class TradeAnalyzer\<close>\<close>

text \<open>
  What \<^verbatim>\<open>notify_trade\<close> reads of the trade object it is handed: \<^verbatim>\<open>trade.isclosed\<close>
  and \<^verbatim>\<open>trade.pnl\<close>.
\<close>

record trade =
  isclosed :: bool
  pnl :: real

record TradeAnalyzer =
  trades :: int
  wins :: int

text \<open>\<^verbatim>\<open>__init__\<close>\<close>

definition TradeAnalyzer_init :: TradeAnalyzer where
  "TradeAnalyzer_init = \<lparr>trades = 0, wins = 0\<rparr>"

definition notify_trade :: "TradeAnalyzer \<Rightarrow> trade \<Rightarrow> TradeAnalyzer" where
  "notify_trade self t =
     (if isclosed t then
        (let self1 = self\<lparr>trades := trades self + 1\<rparr>
         in if pnl t > 0 then self1\<lparr>wins := wins self1 + 1\<rparr> else self1)
      else self)"

definition get_analysis :: "TradeAnalyzer \<Rightarrow> pydict" where
  "get_analysis self =
     [''total_trades'' \<mapsto> PyInt (trades self),
      ''wins'' \<mapsto> PyInt (wins self),
      ''win_rate'' \<mapsto>
         (if trades self > 0
          then PyFloat (real_of_int (wins self) / real_of_int (trades self))
          else PyInt 0)]"

text \<open>
  The engine calls \<^verbatim>\<open>notify_trade\<close> once per trade notification, in order, on the
  analyzer that \<^verbatim>\<open>__init__\<close> built: the analyzer after a sequence of notifications.
\<close>

definition notified :: "trade list \<Rightarrow> TradeAnalyzer" where
  "notified ts = foldl notify_trade TradeAnalyzer_init ts"

text \<open>Lines 98--101 of \<^verbatim>\<open>run_strategy\<close>: the three figures read back for the report.\<close>

definition report_total_trades :: "TradeAnalyzer \<Rightarrow> pyval" where
  "report_total_trades self = dict_get (get_analysis self) ''total_trades'' (PyInt 0)"

definition report_wins :: "TradeAnalyzer \<Rightarrow> pyval" where
  "report_wins self = dict_get (get_analysis self) ''wins'' (PyInt 0)"

definition report_win_rate :: "TradeAnalyzer \<Rightarrow> pyval" where
  "report_win_rate self = dict_get (get_analysis self) ''win_rate'' (PyInt 0)"


section \<open>The three strategy classes\<close>

text \<open>
  Each \<^verbatim>\<open>next\<close> reads four things of the engine: the truth value of \<^verbatim>\<open>self.position\<close>,
  \<^verbatim>\<open>self.broker.getcash()\<close>, \<^verbatim>\<open>self.data.close[0]\<close> and the current value of its
  indicator lines. The indicators and the position object are the engine's, so they are
  parameters here. A method ends in one of three ways: it called \<^verbatim>\<open>self.buy(size=shares)\<close>,
  it called \<^verbatim>\<open>self.close()\<close>, or it fell through without a call; a raised exception is the
  \<open>Inl\<close> of the result.
\<close>

datatype decision = Hold | Buy int | Close

text \<open>
  Modelled from the spec: the position object of the engine, which is not in the
  repository. Section 3 gives it a size and an average entry price, and "size = 0 means
  flat"; \<^verbatim>\<open>not self.position\<close> in the source is its falsity.
\<close>

record position =
  size_pos :: int
  averageEntryPrice :: real

definition position_bool :: "position \<Rightarrow> bool" where
  "position_bool p = (size_pos p \<noteq> 0)"

record RSI_params =
  rsi_period :: int
  rsi_overbought :: real
  rsi_oversold :: real

text \<open>\<^verbatim>\<open>params = (('rsi_period', 14), ('rsi_overbought', 70), ('rsi_oversold', 30))\<close>\<close>

definition RSI_defaults :: RSI_params where
  "RSI_defaults = \<lparr>rsi_period = 14, rsi_overbought = 70, rsi_oversold = 30\<rparr>"

definition RSIStrategy_next ::
  "RSI_params \<Rightarrow> pyfloat \<Rightarrow> position \<Rightarrow> real \<Rightarrow> real \<Rightarrow> py_error + decision" where
  "RSIStrategy_next params rsi pos cash close0 =
     (if \<not> position_bool pos then
        (if py_lt rsi (Num (rsi_oversold params)) then
           (case py_truediv cash close0 of
              Inl err \<Rightarrow> Inl err
            | Inr q \<Rightarrow> Inr (Buy (py_int q)))
         else Inr Hold)
      else if py_gt rsi (Num (rsi_overbought params)) then Inr Close
      else Inr Hold)"

definition BollingerBandsStrategy_next ::
  "pyfloat \<Rightarrow> pyfloat \<Rightarrow> position \<Rightarrow> real \<Rightarrow> real \<Rightarrow> py_error + decision" where
  "BollingerBandsStrategy_next bband_bot bband_top pos cash close0 =
     (if \<not> position_bool pos then
        (if py_lt (Num close0) bband_bot then
           (case py_truediv cash close0 of
              Inl err \<Rightarrow> Inl err
            | Inr q \<Rightarrow> Inr (Buy (py_int q)))
         else Inr Hold)
      else if py_gt (Num close0) bband_top then Inr Close
      else Inr Hold)"

definition MovingAverageCrossoverStrategy_next ::
  "pyfloat \<Rightarrow> position \<Rightarrow> real \<Rightarrow> real \<Rightarrow> py_error + decision" where
  "MovingAverageCrossoverStrategy_next crossover pos cash close0 =
     (if \<not> position_bool pos then
        (if py_gt crossover (Num 0) then
           (case py_truediv cash close0 of
              Inl err \<Rightarrow> Inl err
            | Inr q \<Rightarrow> Inr (Buy (py_int q)))
         else Inr Hold)
      else if py_lt crossover (Num 0) then Inr Close
      else Inr Hold)"

text \<open>
  \<^verbatim>\<open>run_strategy(strategy_class)\<close> is called with each of the three classes. What the engine
  shows a strategy at one bar: the close and the current value of every indicator line
  (NaN while the indicator is not ready).
\<close>

datatype strategy_class =
  RSIStrategy RSI_params | BollingerBandsStrategy | MovingAverageCrossoverStrategy

record snapshot =
  bar_close :: real
  rsi_line :: pyfloat
  bband_bot_line :: pyfloat
  bband_top_line :: pyfloat
  crossover_line :: pyfloat

fun strategy_next ::
  "strategy_class \<Rightarrow> snapshot \<Rightarrow> position \<Rightarrow> real \<Rightarrow> py_error + decision" where
  "strategy_next (RSIStrategy params) s pos cash =
     RSIStrategy_next params (rsi_line s) pos cash (bar_close s)"
| "strategy_next BollingerBandsStrategy s pos cash =
     BollingerBandsStrategy_next (bband_bot_line s) (bband_top_line s) pos cash (bar_close s)"
| "strategy_next MovingAverageCrossoverStrategy s pos cash =
     MovingAverageCrossoverStrategy_next (crossover_line s) pos cash (bar_close s)"


section \<open>The broker and the bar loop\<close>

text \<open>
  Modelled from the spec: the broker, the trade ledger and the loop over the bars belong to
  the backtesting engine the script imports, and are not in the repository. The
  definitions of this section follow sections 3, 4.3 and 4.5 of the specification. The
  size of a Buy is the one the strategy passes (\<^verbatim>\<open>self.buy(size=shares)\<close>, the
  \<open>requestedSize\<close> of the spec's Order); the bars a Trade was entered and left at are left
  out, and the exit price and profit of a Trade that is still open are 0.
\<close>

datatype trade_state = Open | Closed

record Trade =
  entryPrice :: real
  exitPrice :: real
  size_trade :: int
  profitAndLoss :: real
  state :: trade_state

record portfolio =
  cash :: real
  position :: position
  equityCurve :: "real list"

datatype fill_result = Filled | Rejected | NoOrder

record engine =
  portfolio :: portfolio
  ledger :: "Trade list"
  rejected_orders :: "decision list"

definition flat :: position where
  "flat = \<lparr>size_pos = 0, averageEntryPrice = 0\<rparr>"

definition open_trades :: "Trade list \<Rightarrow> Trade list" where
  "open_trades l = filter (\<lambda>t. state t = Open) l"

definition close_trade :: "real \<Rightarrow> Trade \<Rightarrow> Trade" where
  "close_trade p t =
     (if state t = Open
      then t\<lparr>exitPrice := p,
             profitAndLoss := (p - entryPrice t) * real_of_int (size_trade t),
             state := Closed\<rparr>
      else t)"

text \<open>
  Modelled from the spec: a rejected order is a no-op recorded as a rejected-order event
  (sections 4.3 and 7); it changes neither portfolio nor ledger.
\<close>

definition reject :: "decision \<Rightarrow> engine \<Rightarrow> engine \<times> fill_result" where
  "reject d e = (e\<lparr>rejected_orders := rejected_orders e @ [d]\<rparr>, Rejected)"

text \<open>
  Modelled from the spec: \<open>execute\<close> of section 4.3. A Buy is rejected while a position is held (the precondition of sections
  4.2 and 9), when its size is 0, and when it would make cash negative (section 3);
  CloseAll is rejected while flat. Every fill is at the close of the bar.
\<close>

fun execute :: "decision \<Rightarrow> real \<Rightarrow> engine \<Rightarrow> engine \<times> fill_result" where
  "execute Hold p e = (e, NoOrder)"
| "execute (Buy n) p e =
     (let pf = portfolio e in
      if size_pos (position pf) > 0 then reject (Buy n) e
      else if n = 0 then reject (Buy n) e
      else if cash pf < real_of_int n * p then reject (Buy n) e
      else
        (e\<lparr>portfolio :=
              pf\<lparr>cash := cash pf - real_of_int n * p,
                 position := \<lparr>size_pos = n, averageEntryPrice = p\<rparr>\<rparr>,
            ledger := ledger e @
              [\<lparr>entryPrice = p, exitPrice = 0, size_trade = n, profitAndLoss = 0,
                state = Open\<rparr>]\<rparr>,
         Filled))"
| "execute Close p e =
     (let pf = portfolio e; n = size_pos (position pf) in
      if n > 0 then
        (e\<lparr>portfolio := pf\<lparr>cash := cash pf + real_of_int n * p, position := flat\<rparr>,
            ledger := map (close_trade p) (ledger e)\<rparr>,
         Filled)
      else reject Close e)"

text \<open>
  Modelled from the spec: one bar of the loop of section 4.5. The strategy's \<^verbatim>\<open>next\<close> decides on the portfolio's position and
  cash, the broker executes the decision at the bar's close, and the portfolio value is
  appended to the equity curve. An exception raised by \<^verbatim>\<open>next\<close> ends the run.
\<close>

definition record_equity :: "real \<Rightarrow> engine \<Rightarrow> engine" where
  "record_equity p e =
     (let pf = portfolio e in
      e\<lparr>portfolio :=
          pf\<lparr>equityCurve :=
               equityCurve pf @ [cash pf + real_of_int (size_pos (position pf)) * p]\<rparr>\<rparr>)"

definition step :: "strategy_class \<Rightarrow> engine \<Rightarrow> snapshot \<Rightarrow> py_error + engine" where
  "step sc e s =
     (case strategy_next sc s (position (portfolio e)) (cash (portfolio e)) of
        Inl err \<Rightarrow> Inl err
      | Inr d \<Rightarrow> Inr (record_equity (bar_close s) (fst (execute d (bar_close s) e))))"

fun run_bars :: "strategy_class \<Rightarrow> engine \<Rightarrow> snapshot list \<Rightarrow> py_error + engine" where
  "run_bars sc e [] = Inr e"
| "run_bars sc e (s # ss) =
     (case step sc e s of Inl err \<Rightarrow> Inl err | Inr e1 \<Rightarrow> run_bars sc e1 ss)"

text \<open>
  Modelled from the spec: the portfolio a run starts from (section 4.5): \<^verbatim>\<open>cerebro.broker.setcash(100000)\<close> in the source, any
  starting cash in the spec; flat, with an empty ledger and the equity curve seeded with
  the starting cash.
\<close>

definition initial_engine :: "real \<Rightarrow> engine" where
  "initial_engine startingCash =
     \<lparr>portfolio = \<lparr>cash = startingCash, position = flat, equityCurve = [startingCash]\<rparr>,
      ledger = [], rejected_orders = []\<rparr>"

definition run :: "strategy_class \<Rightarrow> real \<Rightarrow> snapshot list \<Rightarrow> py_error + engine" where
  "run sc startingCash bars = run_bars sc (initial_engine startingCash) bars"


text \<open>
  The ledger and the position of the modelled engine agree: no Trade is open while flat,
  exactly one otherwise.
\<close>

definition one_open_trade :: "engine \<Rightarrow> bool" where
  "one_open_trade e =
     (length (open_trades (ledger e)) = (if size_pos (position (portfolio e)) = 0 then 0 else 1))"

text \<open>
  The two bars of the scenario of section 8 (a Buy at close 100, then a CloseAll at close
  110), with indicator values under which each of the three strategies enters at the
  first bar and leaves at the second.
\<close>

definition scenario_buy_bar :: snapshot where
  "scenario_buy_bar =
     \<lparr>bar_close = 100, rsi_line = Num 25, bband_bot_line = Num 101,
      bband_top_line = Num 120, crossover_line = Num 1\<rparr>"

definition scenario_close_bar :: snapshot where
  "scenario_close_bar =
     \<lparr>bar_close = 110, rsi_line = Num 75, bband_bot_line = Num 90,
      bband_top_line = Num 105, crossover_line = Num (- 1)\<rparr>"


section \<open>Counting trades\<close>

lemma notify_trade_trades:
  "trades (notify_trade self t) = trades self + (if isclosed t then 1 else 0)"
  by (simp add: notify_trade_def Let_def)

lemma notify_trade_wins:
  "wins (notify_trade self t) = wins self + (if isclosed t \<and> pnl t > 0 then 1 else 0)"
  by (simp add: notify_trade_def Let_def)

lemma foldl_notify_trade_trades:
  "trades (foldl notify_trade self ts) = trades self + int (length (filter isclosed ts))"
  by (induction ts arbitrary: self) (simp_all add: notify_trade_trades)

lemma foldl_notify_trade_wins:
  "wins (foldl notify_trade self ts) =
     wins self + int (length (filter (\<lambda>t. isclosed t \<and> pnl t > 0) ts))"
  by (induction ts arbitrary: self) (simp_all add: notify_trade_wins)

lemma notified_trades: "trades (notified ts) = int (length (filter isclosed ts))"
  by (simp add: notified_def foldl_notify_trade_trades TradeAnalyzer_init_def)

lemma notified_wins:
  "wins (notified ts) = int (length (filter (\<lambda>t. isclosed t \<and> pnl t > 0) ts))"
  by (simp add: notified_def foldl_notify_trade_wins TradeAnalyzer_init_def)

lemma notified_wins_bounds: "0 \<le> wins (notified ts) \<and> wins (notified ts) \<le> trades (notified ts)"
proof -
  have "length (filter (\<lambda>t. isclosed t \<and> pnl t > 0) ts) \<le> length (filter isclosed ts)"
  proof (induction ts)
    case Nil
    show ?case by simp
  next
    case (Cons t ts)
    then show ?case by simp
  qed
  then show ?thesis by (simp add: notified_trades notified_wins)
qed

lemma win_rate_entry:
  "report_win_rate self =
     (if trades self > 0
      then PyFloat (real_of_int (wins self) / real_of_int (trades self))
      else PyInt 0)"
  by (simp add: report_win_rate_def dict_get_def get_analysis_def)

text \<open>
  C6. After any sequence of trade notifications the analyzer's \<^verbatim>\<open>trades\<close> counter is the
  number of notifications of a closed trade, its \<^verbatim>\<open>wins\<close> counter is the number of
  notifications of a closed trade whose \<^verbatim>\<open>pnl\<close> is strictly positive, and these are the
  figures \<^verbatim>\<open>get_analysis\<close> reports under \<^verbatim>\<open>total_trades\<close> and \<^verbatim>\<open>wins\<close>. Notifications of a trade
  that is not closed add to neither counter.
\<close>

theorem trade_counting:
  "trades (notified ts) = int (length (filter isclosed ts)) \<and>
   wins (notified ts) = int (length (filter (\<lambda>t. isclosed t \<and> pnl t > 0) ts)) \<and>
   report_total_trades (notified ts) = PyInt (int (length (filter isclosed ts))) \<and>
   report_wins (notified ts) = PyInt (int (length (filter (\<lambda>t. isclosed t \<and> pnl t > 0) ts))) \<and>
   notified (filter isclosed ts) = notified ts"
proof -
  have open_ignored: "foldl notify_trade self (filter isclosed us) = foldl notify_trade self us"
    for self us
    by (induction us arbitrary: self) (simp_all add: notify_trade_def)
  have "report_total_trades (notified ts) = PyInt (trades (notified ts))"
    by (simp add: report_total_trades_def dict_get_def get_analysis_def)
  moreover have "report_wins (notified ts) = PyInt (wins (notified ts))"
    by (simp add: report_wins_def dict_get_def get_analysis_def)
  moreover have "notified (filter isclosed ts) = notified ts"
    by (simp add: notified_def open_ignored)
  ultimately show ?thesis
    by (simp add: notified_trades notified_wins)
qed

theorem trade_counting_witness:
  "trades (notified [\<lparr>isclosed = False, pnl = 0\<rparr>, \<lparr>isclosed = True, pnl = 10000\<rparr>,
                     \<lparr>isclosed = False, pnl = 5\<rparr>, \<lparr>isclosed = True, pnl = - 3\<rparr>,
                     \<lparr>isclosed = True, pnl = 0\<rparr>]) = 3 \<and>
   wins (notified [\<lparr>isclosed = False, pnl = 0\<rparr>, \<lparr>isclosed = True, pnl = 10000\<rparr>,
                   \<lparr>isclosed = False, pnl = 5\<rparr>, \<lparr>isclosed = True, pnl = - 3\<rparr>,
                   \<lparr>isclosed = True, pnl = 0\<rparr>]) = 1"
  using trade_counting [of "[\<lparr>isclosed = False, pnl = 0\<rparr>, \<lparr>isclosed = True, pnl = 10000\<rparr>,
                             \<lparr>isclosed = False, pnl = 5\<rparr>, \<lparr>isclosed = True, pnl = - 3\<rparr>,
                             \<lparr>isclosed = True, pnl = 0\<rparr>]"]
  by simp


section \<open>The win rate\<close>

text \<open>
  C1. After any sequence of trade notifications, the \<^verbatim>\<open>win_rate\<close> that \<^verbatim>\<open>get_analysis\<close>
  reports is \<^verbatim>\<open>wins / trades\<close> when \<^verbatim>\<open>trades > 0\<close> and the integer 0 when there is no
  closed trade; as a number it lies between 0 and 1.
\<close>

theorem win_rate_value:
  "report_win_rate (notified ts) =
     (if trades (notified ts) > 0
      then PyFloat (real_of_int (wins (notified ts)) / real_of_int (trades (notified ts)))
      else PyInt 0) \<and>
   0 \<le> py_num (report_win_rate (notified ts)) \<and>
   py_num (report_win_rate (notified ts)) \<le> 1"
proof -
  let ?a = "notified ts"
  have b: "0 \<le> wins ?a" "wins ?a \<le> trades ?a"
    using notified_wins_bounds [of ts] by simp_all
  show ?thesis
  proof (cases "trades ?a > 0")
    case True
    have "real_of_int (wins ?a) / real_of_int (trades ?a) \<le> 1"
      using True b by (simp add: divide_le_eq_1)
    moreover have "0 \<le> real_of_int (wins ?a) / real_of_int (trades ?a)"
      using True b by simp
    ultimately show ?thesis
      using True by (simp add: win_rate_entry)
  next
    case False
    then show ?thesis by (simp add: win_rate_entry)
  qed
qed

theorem win_rate_value_witness:
  "report_win_rate (notified [\<lparr>isclosed = True, pnl = 10000\<rparr>, \<lparr>isclosed = True, pnl = - 3\<rparr>,
                              \<lparr>isclosed = False, pnl = 7\<rparr>, \<lparr>isclosed = True, pnl = 2\<rparr>])
     = PyFloat (2 / 3) \<and>
   report_win_rate (notified []) = PyInt 0"
  using win_rate_value [of "[\<lparr>isclosed = True, pnl = 10000\<rparr>, \<lparr>isclosed = True, pnl = - 3\<rparr>,
                             \<lparr>isclosed = False, pnl = 7\<rparr>, \<lparr>isclosed = True, pnl = 2\<rparr>]"]
        win_rate_value [of "[]"]
  by (simp add: notified_trades notified_wins)


section \<open>What \<^verbatim>\<open>next\<close> decides\<close>

lemma RSIStrategy_next_Buy:
  "RSIStrategy_next params r pos c p = Inr (Buy n) \<Longrightarrow>
     \<not> position_bool pos \<and> p \<noteq> 0 \<and> n = py_int (c / p)"
  by (auto simp: RSIStrategy_next_def py_truediv_def split: if_splits)

lemma BollingerBandsStrategy_next_Buy:
  "BollingerBandsStrategy_next lo hi pos c p = Inr (Buy n) \<Longrightarrow>
     \<not> position_bool pos \<and> p \<noteq> 0 \<and> n = py_int (c / p)"
  by (auto simp: BollingerBandsStrategy_next_def py_truediv_def split: if_splits)

lemma MovingAverageCrossoverStrategy_next_Buy:
  "MovingAverageCrossoverStrategy_next x pos c p = Inr (Buy n) \<Longrightarrow>
     \<not> position_bool pos \<and> p \<noteq> 0 \<and> n = py_int (c / p)"
  by (auto simp: MovingAverageCrossoverStrategy_next_def py_truediv_def split: if_splits)

lemma strategy_next_Buy:
  "strategy_next sc s pos c = Inr (Buy n) \<Longrightarrow>
     \<not> position_bool pos \<and> bar_close s \<noteq> 0 \<and> n = py_int (c / bar_close s)"
  by (cases sc)
    (auto dest: RSIStrategy_next_Buy BollingerBandsStrategy_next_Buy
       MovingAverageCrossoverStrategy_next_Buy)

lemma RSIStrategy_next_Close:
  "RSIStrategy_next params r pos c p = Inr Close \<Longrightarrow> position_bool pos"
  by (auto simp: RSIStrategy_next_def py_truediv_def split: if_splits)

lemma BollingerBandsStrategy_next_Close:
  "BollingerBandsStrategy_next lo hi pos c p = Inr Close \<Longrightarrow> position_bool pos"
  by (auto simp: BollingerBandsStrategy_next_def py_truediv_def split: if_splits)

lemma MovingAverageCrossoverStrategy_next_Close:
  "MovingAverageCrossoverStrategy_next x pos c p = Inr Close \<Longrightarrow> position_bool pos"
  by (auto simp: MovingAverageCrossoverStrategy_next_def py_truediv_def split: if_splits)

lemma strategy_next_Close:
  "strategy_next sc s pos c = Inr Close \<Longrightarrow> position_bool pos"
  by (cases sc)
    (auto dest: RSIStrategy_next_Close BollingerBandsStrategy_next_Close
       MovingAverageCrossoverStrategy_next_Close)




section \<open>Indicators that are not ready\<close>

text \<open>
  C5. While its indicator is not ready (the indicator line holds NaN), each of the three
  \<^verbatim>\<open>next\<close> methods falls through without an order, whatever the thresholds, the position,
  the cash and the close: the comparisons that guard \<^verbatim>\<open>buy\<close> and \<^verbatim>\<open>close\<close> are False on
  NaN, and the share-sizing division is not reached.
\<close>

theorem warm_up_hold:
  "RSIStrategy_next params NaN pos c p = Inr Hold \<and>
   BollingerBandsStrategy_next NaN NaN pos c p = Inr Hold \<and>
   MovingAverageCrossoverStrategy_next NaN pos c p = Inr Hold \<and>
   strategy_next sc \<lparr>bar_close = p, rsi_line = NaN, bband_bot_line = NaN,
                      bband_top_line = NaN, crossover_line = NaN\<rparr> pos c = Inr Hold"
proof -
  have r: "RSIStrategy_next ps NaN pos c p = Inr Hold" for ps
    by (simp add: RSIStrategy_next_def)
  have b: "BollingerBandsStrategy_next NaN NaN pos c p = Inr Hold"
    by (simp add: BollingerBandsStrategy_next_def)
  have m: "MovingAverageCrossoverStrategy_next NaN pos c p = Inr Hold"
    by (simp add: MovingAverageCrossoverStrategy_next_def)
  show ?thesis
    by (cases sc) (simp_all add: r b m)
qed

theorem warm_up_hold_witness:
  "RSIStrategy_next \<lparr>rsi_period = 14, rsi_overbought = - 1000, rsi_oversold = 1000\<rparr> NaN
     \<lparr>size_pos = 0, averageEntryPrice = 0\<rparr> 100000 100 = Inr Hold \<and>
   RSIStrategy_next \<lparr>rsi_period = 14, rsi_overbought = - 1000, rsi_oversold = 1000\<rparr> NaN
     \<lparr>size_pos = 1000, averageEntryPrice = 100\<rparr> 0 100 = Inr Hold \<and>
   BollingerBandsStrategy_next NaN NaN \<lparr>size_pos = 0, averageEntryPrice = 0\<rparr> 100000 0
     = Inr Hold \<and>
   MovingAverageCrossoverStrategy_next NaN \<lparr>size_pos = 0, averageEntryPrice = 0\<rparr> 100000 0
     = Inr Hold"
  using warm_up_hold [of "\<lparr>rsi_period = 14, rsi_overbought = - 1000, rsi_oversold = 1000\<rparr>"
          "\<lparr>size_pos = 0, averageEntryPrice = 0\<rparr>" 100000 100]
        warm_up_hold [of "\<lparr>rsi_period = 14, rsi_overbought = - 1000, rsi_oversold = 1000\<rparr>"
          "\<lparr>size_pos = 1000, averageEntryPrice = 100\<rparr>" 0 100]
        warm_up_hold [of RSI_defaults "\<lparr>size_pos = 0, averageEntryPrice = 0\<rparr>" 100000 0]
  by simp


section \<open>The share-sizing division\<close>




section \<open>Filling a Buy\<close>


lemma py_int_floor_zero:
  assumes "\<lfloor>x\<rfloor> = 0"
  shows "py_int x = 0"
proof -
  from assms have "0 \<le> x" by (simp add: floor_eq_iff)
  with assms show ?thesis by (simp add: py_int_def)
qed


lemmas scenario_simps =
  scenario_buy_bar_def scenario_close_bar_def initial_engine_def flat_def run_def step_def
  record_equity_def reject_def close_trade_def open_trades_def position_bool_def
  RSIStrategy_next_def BollingerBandsStrategy_next_def MovingAverageCrossoverStrategy_next_def
  py_truediv_def py_int_def RSI_defaults_def Let_def




section \<open>A Buy of no share\<close>

text \<open>
  C7. At a bar where the strategy orders a Buy and \<open>floor (cash / close)\<close> is 0, the size
  it passes is 0; the broker of section 4.3 rejects the order, which leaves portfolio and
  ledger as they were and records the order among the rejected ones; the bar ends without
  an error, with the same cash, position and ledger, and the run goes on.
\<close>

theorem zero_size_buy_rejected:
  assumes buy: "strategy_next sc s (position (portfolio e)) (cash (portfolio e)) = Inr (Buy S)"
    and zero: "\<lfloor>cash (portfolio e) / bar_close s\<rfloor> = 0"
  shows "S = 0 \<and>
         execute (Buy S) (bar_close s) e
           = (e\<lparr>rejected_orders := rejected_orders e @ [Buy 0]\<rparr>, Rejected) \<and>
         portfolio (fst (execute (Buy S) (bar_close s) e)) = portfolio e \<and>
         ledger (fst (execute (Buy S) (bar_close s) e)) = ledger e \<and>
         (\<exists>e'. step sc e s = Inr e' \<and>
               cash (portfolio e') = cash (portfolio e) \<and>
               position (portfolio e') = position (portfolio e) \<and>
               ledger e' = ledger e)"
proof -
  from strategy_next_Buy [OF buy]
  have fl: "size_pos (position (portfolio e)) = 0"
    and S: "S = py_int (cash (portfolio e) / bar_close s)"
    by (simp_all add: position_bool_def)
  have S0: "S = 0" using S zero by (simp add: py_int_floor_zero)
  have ex: "execute (Buy S) (bar_close s) e
           = (e\<lparr>rejected_orders := rejected_orders e @ [Buy 0]\<rparr>, Rejected)"
    using S0 fl by (simp add: Let_def reject_def)
  have st: "step sc e s
      = Inr (record_equity (bar_close s) (e\<lparr>rejected_orders := rejected_orders e @ [Buy 0]\<rparr>))"
    using buy ex by (simp add: step_def)
  show ?thesis
    using S0 ex st by (simp add: record_equity_def Let_def)
qed

theorem zero_size_buy_rejected_witness:
  "strategy_next (RSIStrategy RSI_defaults) scenario_buy_bar
      (position (portfolio (initial_engine 50))) (cash (portfolio (initial_engine 50)))
     = Inr (Buy 0) \<and>
   \<lfloor>cash (portfolio (initial_engine 50)) / bar_close scenario_buy_bar\<rfloor> = 0 \<and>
   portfolio (fst (execute (Buy 0) (bar_close scenario_buy_bar) (initial_engine 50)))
     = portfolio (initial_engine 50) \<and>
   rejected_orders (fst (execute (Buy 0) (bar_close scenario_buy_bar) (initial_engine 50)))
     = [Buy 0]"
proof -
  have b: "strategy_next (RSIStrategy RSI_defaults) scenario_buy_bar
      (position (portfolio (initial_engine 50))) (cash (portfolio (initial_engine 50)))
     = Inr (Buy 0)"
    by (simp add: scenario_simps)
  have z: "\<lfloor>cash (portfolio (initial_engine 50)) / bar_close scenario_buy_bar\<rfloor> = 0"
    by (simp add: scenario_simps)
  from zero_size_buy_rejected [OF b z] b z show ?thesis
    by (simp add: initial_engine_def)
qed


section \<open>One position at a time\<close>

lemma open_trades_close_trade: "open_trades (map (close_trade p) l) = []"
  by (induction l) (simp_all add: open_trades_def close_trade_def)

lemma execute_Hold_inv: "one_open_trade e \<Longrightarrow> one_open_trade (fst (execute Hold p e))"
  by simp

lemma execute_Buy_inv:
  assumes "one_open_trade e" and "size_pos (position (portfolio e)) = 0"
  shows "one_open_trade (fst (execute (Buy n) p e))"
  using assms by (simp add: one_open_trade_def Let_def reject_def open_trades_def)

lemma execute_Close_inv:
  assumes "one_open_trade e"
  shows "one_open_trade (fst (execute Close p e))"
  using assms
  by (auto simp: one_open_trade_def Let_def reject_def open_trades_close_trade flat_def)

lemma record_equity_inv: "one_open_trade (record_equity p e) = one_open_trade e"
  by (simp add: one_open_trade_def record_equity_def Let_def)

lemma step_inv:
  assumes inv: "one_open_trade e" and st: "step sc e s = Inr e'"
  shows "one_open_trade e'"
proof (cases "strategy_next sc s (position (portfolio e)) (cash (portfolio e))")
  case (Inl err)
  with st show ?thesis by (simp add: step_def)
next
  case (Inr d)
  with st have e': "e' = record_equity (bar_close s) (fst (execute d (bar_close s) e))"
    by (simp add: step_def)
  have "one_open_trade (fst (execute d (bar_close s) e))"
  proof (cases d)
    case Hold
    with inv show ?thesis by simp
  next
    case (Buy n)
    with Inr have "size_pos (position (portfolio e)) = 0"
      using strategy_next_Buy [of sc s "position (portfolio e)" "cash (portfolio e)" n]
      by (simp add: position_bool_def)
    with inv Buy show ?thesis by (simp only: execute_Buy_inv)
  next
    case Close
    with inv show ?thesis by (simp only: execute_Close_inv)
  qed
  then show ?thesis by (simp add: e' record_equity_inv)
qed

lemma run_bars_inv:
  "one_open_trade e \<Longrightarrow> run_bars sc e bars = Inr e' \<Longrightarrow> one_open_trade e'"
proof (induction bars arbitrary: e)
  case Nil
  then show ?case by simp
next
  case (Cons s bars)
  show ?case
  proof (cases "step sc e s")
    case (Inl err)
    with Cons.prems show ?thesis by simp
  next
    case (Inr e1)
    with Cons.prems have "run_bars sc e1 bars = Inr e'" by simp
    moreover have "one_open_trade e1" using Cons.prems(1) Inr by (rule step_inv)
    ultimately show ?thesis by (rule Cons.IH [rotated])
  qed
qed

lemma initial_engine_inv: "one_open_trade (initial_engine c)"
  by (simp add: one_open_trade_def initial_engine_def flat_def open_trades_def)

text \<open>
  C4. A \<^verbatim>\<open>next\<close> that orders a Buy was called on a position of size 0 (so never while the
  size is positive), and one that orders a close was called on a position whose size is
  not 0. Hence in every run of the bar loop of section 4.5 from the initial portfolio, at
  every moment at most one Trade of the ledger is open, and one is open exactly when the
  position is not flat. A Buy handed to the broker of section 4.3 while a position is held
  and a CloseAll handed to it while flat are rejected and leave portfolio and ledger as
  they were.
\<close>

theorem position_state_machine:
  "(strategy_next sc s pos c = Inr (Buy n) \<longrightarrow> \<not> 0 < size_pos pos) \<and>
   (strategy_next sc s' pos' c' = Inr Close \<longrightarrow> size_pos pos' \<noteq> 0) \<and>
   (run sc startingCash bars = Inr e \<longrightarrow>
      length (open_trades (ledger e)) \<le> 1 \<and>
      (length (open_trades (ledger e)) = 1) = (size_pos (position (portfolio e)) \<noteq> 0)) \<and>
   (0 < size_pos (position (portfolio e1)) \<longrightarrow>
      snd (execute (Buy m) p e1) = Rejected \<and>
      portfolio (fst (execute (Buy m) p e1)) = portfolio e1 \<and>
      ledger (fst (execute (Buy m) p e1)) = ledger e1) \<and>
   (size_pos (position (portfolio e2)) = 0 \<longrightarrow>
      snd (execute Close p e2) = Rejected \<and>
      portfolio (fst (execute Close p e2)) = portfolio e2 \<and>
      ledger (fst (execute Close p e2)) = ledger e2)"
proof -
  have buy: "strategy_next sc s pos c = Inr (Buy n) \<longrightarrow> \<not> 0 < size_pos pos"
    using strategy_next_Buy [of sc s pos c n] by (auto simp: position_bool_def)
  have cl: "strategy_next sc s' pos' c' = Inr Close \<longrightarrow> size_pos pos' \<noteq> 0"
    using strategy_next_Close [of sc s' pos' c'] by (auto simp: position_bool_def)
  have inv: "run sc startingCash bars = Inr e \<longrightarrow>
      length (open_trades (ledger e)) \<le> 1 \<and>
      (length (open_trades (ledger e)) = 1) = (size_pos (position (portfolio e)) \<noteq> 0)"
  proof
    assume "run sc startingCash bars = Inr e"
    then have "one_open_trade e"
      using run_bars_inv [OF initial_engine_inv] by (simp add: run_def)
    then show "length (open_trades (ledger e)) \<le> 1 \<and>
      (length (open_trades (ledger e)) = 1) = (size_pos (position (portfolio e)) \<noteq> 0)"
      by (simp add: one_open_trade_def)
  qed
  have rb: "0 < size_pos (position (portfolio e1)) \<longrightarrow>
      snd (execute (Buy m) p e1) = Rejected \<and>
      portfolio (fst (execute (Buy m) p e1)) = portfolio e1 \<and>
      ledger (fst (execute (Buy m) p e1)) = ledger e1"
    by (simp add: Let_def reject_def)
  have rc: "size_pos (position (portfolio e2)) = 0 \<longrightarrow>
      snd (execute Close p e2) = Rejected \<and>
      portfolio (fst (execute Close p e2)) = portfolio e2 \<and>
      ledger (fst (execute Close p e2)) = ledger e2"
    by (simp add: Let_def reject_def)
  from buy cl inv rb rc show ?thesis by blast
qed

lemma scenario_run:
  "run MovingAverageCrossoverStrategy 100000 [scenario_buy_bar, scenario_close_bar] =
     Inr \<lparr>portfolio = \<lparr>cash = 110000, position = flat, equityCurve = [100000, 100000, 110000]\<rparr>,
          ledger = [\<lparr>entryPrice = 100, exitPrice = 110, size_trade = 1000,
                     profitAndLoss = 10000, state = Closed\<rparr>],
          rejected_orders = []\<rparr>"
  by (simp add: scenario_simps)

lemma scenario_run1:
  "run MovingAverageCrossoverStrategy 100000 [scenario_buy_bar] =
     Inr \<lparr>portfolio = \<lparr>cash = 0, position = \<lparr>size_pos = 1000, averageEntryPrice = 100\<rparr>,
                       equityCurve = [100000, 100000]\<rparr>,
          ledger = [\<lparr>entryPrice = 100, exitPrice = 0, size_trade = 1000,
                     profitAndLoss = 0, state = Open\<rparr>],
          rejected_orders = []\<rparr>"
  by (simp add: scenario_simps)

theorem position_state_machine_witness:
  "strategy_next MovingAverageCrossoverStrategy scenario_buy_bar flat 100000 = Inr (Buy 1000) \<and>
   strategy_next MovingAverageCrossoverStrategy scenario_close_bar
     \<lparr>size_pos = 1000, averageEntryPrice = 100\<rparr> 0 = Inr Close \<and>
   (\<exists>e. run MovingAverageCrossoverStrategy 100000 [scenario_buy_bar] = Inr e \<and>
        length (open_trades (ledger e)) = 1 \<and> size_pos (position (portfolio e)) = 1000) \<and>
   (\<exists>e. run MovingAverageCrossoverStrategy 100000 [scenario_buy_bar, scenario_close_bar] = Inr e \<and>
        length (open_trades (ledger e)) = 0 \<and> size_pos (position (portfolio e)) = 0)"
proof -
  let ?e1 = "\<lparr>portfolio = \<lparr>cash = 0, position = \<lparr>size_pos = 1000, averageEntryPrice = 100\<rparr>,
                       equityCurve = [100000, 100000]\<rparr>,
          ledger = [\<lparr>entryPrice = 100, exitPrice = 0, size_trade = 1000,
                     profitAndLoss = 0, state = Open\<rparr>],
          rejected_orders = []\<rparr>"
  let ?e2 = "\<lparr>portfolio = \<lparr>cash = 110000, position = flat, equityCurve = [100000, 100000, 110000]\<rparr>,
          ledger = [\<lparr>entryPrice = 100, exitPrice = 110, size_trade = 1000,
                     profitAndLoss = 10000, state = Closed\<rparr>],
          rejected_orders = []\<rparr>"
  have b: "strategy_next MovingAverageCrossoverStrategy scenario_buy_bar flat 100000
             = Inr (Buy 1000)"
    by (simp add: scenario_simps)
  have c: "strategy_next MovingAverageCrossoverStrategy scenario_close_bar
             \<lparr>size_pos = 1000, averageEntryPrice = 100\<rparr> 0 = Inr Close"
    by (simp add: scenario_simps)
  have i1: "length (open_trades (ledger ?e1)) = 1 \<and> size_pos (position (portfolio ?e1)) = 1000"
    using position_state_machine [of MovingAverageCrossoverStrategy scenario_buy_bar flat 100000
        1000 scenario_close_bar "\<lparr>size_pos = 1000, averageEntryPrice = 100\<rparr>" 0
        100000 "[scenario_buy_bar]" ?e1 ?e1 1 100 "initial_engine 100000"]
      scenario_run1 b c
    by simp
  have i2: "length (open_trades (ledger ?e2)) = 0 \<and> size_pos (position (portfolio ?e2)) = 0"
    using position_state_machine [of MovingAverageCrossoverStrategy scenario_buy_bar flat 100000
        1000 scenario_close_bar "\<lparr>size_pos = 1000, averageEntryPrice = 100\<rparr>" 0
        100000 "[scenario_buy_bar, scenario_close_bar]" ?e2 ?e1 1 100 "initial_engine 100000"]
      scenario_run b c
    by (simp add: flat_def open_trades_def)
  from b c i1 i2 scenario_run scenario_run1 show ?thesis by simp
qed

end
